theory Spec2Isabelle
  imports Main "HOL-Library.Word"
begin

section \<open>The environment of the sources\<close>

text \<open>
  The kernel sources include \<^verbatim>\<open><sys/module.h>\<close>, \<^verbatim>\<open><sys/bus.h>\<close> and
  \<^verbatim>\<open><sys/param.h>\<close>, which are not part of the repository. The constants they
  declare are parameters of the model: every definition that names one of them takes a
  \<open>sysdefs\<close>, and the theorems hold for all values of the constants. The values of
  FreeBSD's headers are collected in \<open>freebsd\<close> and are used only to evaluate the
  functions at concrete inputs.
\<close>

record sysdefs =
  MOD_LOAD :: int
  MOD_UNLOAD :: int
  EOPNOTSUPP :: int
  ENXIO :: int
  BUS_PROBE_DEFAULT :: int

definition freebsd :: sysdefs where
  "freebsd = \<lparr>MOD_LOAD = 0, MOD_UNLOAD = 1, EOPNOTSUPP = 45, ENXIO = 6,
     BUS_PROBE_DEFAULT = - 20\<rparr>"

text \<open>
  A \<open>device_t\<close> is an opaque handle. No function of the sources looks inside it; the
  handle is only passed on to \<open>device_printf\<close>.
\<close>

type_synonym device_t = nat

text \<open>
  The only effect any function of the sources has is a call of \<open>printf\<close> or
  \<open>device_printf\<close>. A call is recorded with its format string and its arguments
  (\<open>unsigned int\<close> is taken to be 32 bits wide).
\<close>

datatype logline =
  Printf string "32 word list"
  | Device_printf device_t string "32 word list"

text \<open>
  The state the functions run in. \<open>console\<close> is what has been printed so far. The
  record is extensible: everything else the system holds sits in the extension, and the
  functions below are defined for every extension, since the sources never touch it.
\<close>

record kstate =
  console :: "logline list"

definition printf :: "string \<Rightarrow> 32 word list \<Rightarrow> 'a kstate_scheme \<Rightarrow> 'a kstate_scheme" where
  "printf fmt args s = s\<lparr>console := console s @ [Printf fmt args]\<rparr>"

definition device_printf ::
    "device_t \<Rightarrow> string \<Rightarrow> 32 word list \<Rightarrow> 'a kstate_scheme \<Rightarrow> 'a kstate_scheme" where
  "device_printf dev fmt args s = s\<lparr>console := console s @ [Device_printf dev fmt args]\<rparr>"

section \<open>chapters/2/hello\_world/hello\_world.c\<close>

text \<open>
  \<open>hello_world_load(mod, cmd, arg)\<close>: \<open>error\<close> starts at 0; the \<open>switch\<close> prints on
  \<open>MOD_LOAD\<close> and on \<open>MOD_UNLOAD\<close> and sets \<open>error = EOPNOTSUPP\<close> in the default
  branch; \<open>error\<close> is returned. Neither \<open>mod\<close> nor \<open>arg\<close> is used.
\<close>

definition hello_world_load ::
    "sysdefs \<Rightarrow> 'm \<Rightarrow> int \<Rightarrow> 'x \<Rightarrow> 'a kstate_scheme \<Rightarrow> int \<times> 'a kstate_scheme" where
  "hello_world_load c m cmd arg s =
     (let error = 0 in
      if cmd = MOD_LOAD c then
        (error, printf ''Hello World! Kernel module loaded.\<newline>'' [] s)
      else if cmd = MOD_UNLOAD c then
        (error, printf ''Goodbye World! Kernel module unloaded.\<newline>'' [] s)
      else (EOPNOTSUPP c, s))"

section \<open>chapters/4/mydriver/mydriver.c\<close>

text \<open>
  Each of the three entry points prints one line through \<open>device_printf\<close> and returns
  a constant. The steps listed in their comments (identity checks, resource allocation
  and release) are comments only.
\<close>

definition mydriver_probe ::
    "sysdefs \<Rightarrow> device_t \<Rightarrow> 'a kstate_scheme \<Rightarrow> int \<times> 'a kstate_scheme" where
  "mydriver_probe c dev s =
     (BUS_PROBE_DEFAULT c, device_printf dev ''Probing device...\<newline>'' [] s)"

definition mydriver_attach :: "device_t \<Rightarrow> 'a kstate_scheme \<Rightarrow> int \<times> 'a kstate_scheme" where
  "mydriver_attach dev s =
     (0, device_printf dev ''Attaching device and initializing resources...\<newline>'' [] s)"

definition mydriver_detach :: "device_t \<Rightarrow> 'a kstate_scheme \<Rightarrow> int \<times> 'a kstate_scheme" where
  "mydriver_detach dev s =
     (0, device_printf dev ''Detaching device and cleaning up...\<newline>'' [] s)"

section \<open>chapters/4/driver\_sim/driver\_sim.c\<close>

definition read_register :: "32 word \<Rightarrow> 'a kstate_scheme \<Rightarrow> 32 word \<times> 'a kstate_scheme" where
  "read_register address s =
     (let val = address * 2;
          s1 = printf ''[driver] Reading register at address 0x%X...\<newline>'' [address] s
      in (val, s1))"

definition main :: "'a kstate_scheme \<Rightarrow> int \<times> 'a kstate_scheme" where
  "main s =
     (let reg_addr = 0x10;
          (data, s1) = read_register reg_addr s;
          s2 = printf ''[driver] Value read: 0x%X\<newline>'' [data] s1
      in (0, s2))"

section \<open>The vocabulary of the lifecycle claims\<close>

text \<open>
  Modelled from the spec: the resource ledger of a device, the lifecycle state of a
  device and the status of the module, which the sources do not declare (a kernel would
  keep them behind \<open>device_t\<close> and \<open>module_t\<close>). They extend \<open>kstate\<close>, so the
  functions above, defined for every extension, run on a \<open>busstate\<close> unchanged; no
  function of the sources reads or writes one of the three fields.
  \<open>ledger s dev\<close> lists the resources held for \<open>dev\<close> in acquisition order.
\<close>

datatype lifecycle = Unprobed | Probed | Attached | Detached

datatype modstatus = Unloaded | Loaded

record 'r busstate = kstate +
  ledger :: "device_t \<Rightarrow> 'r list"
  dstate :: "device_t \<Rightarrow> lifecycle"
  mstatus :: modstatus

text \<open>
  A concrete state to run the functions on: the module is loaded, device 0 is attached
  and holds two resources.
\<close>

definition held_state :: "string busstate" where
  "held_state = \<lparr>console = [],
     ledger = (\<lambda>d. if d = 0 then [''memory'', ''irq''] else []),
     dstate = (\<lambda>d. if d = 0 then Attached else Unprobed),
     mstatus = Loaded\<rparr>"

section \<open>The register simulation\<close>

text \<open>
  C9. For every 32-bit unsigned address \<open>a\<close>, \<open>read_register(a)\<close> returns \<open>a * 2\<close>
  modulo \<open>2^32\<close>; the call \<open>read_register(0x10)\<close> made by \<open>main\<close> yields \<open>0x20\<close>,
  which is the value \<open>main\<close> then prints before it returns 0.
\<close>

theorem read_register_doubles:
  "unat (fst (read_register a s)) = (unat a * 2) mod 2 ^ 32
   \<and> fst (read_register 0x10 s) = 0x20
   \<and> main s = (0, s\<lparr>console := console s @
        [Printf ''[driver] Reading register at address 0x%X...\<newline>'' [0x10],
         Printf ''[driver] Value read: 0x%X\<newline>'' [0x20]]\<rparr>)"
  by (simp add: read_register_def main_def printf_def unat_word_ariths)

section \<open>The driver skeleton\<close>

text \<open>
  C8. For every device argument, \<open>mydriver_attach\<close> returns 0 and \<open>mydriver_detach\<close>
  returns 0, in every state: the skeleton has no path on which attach fails or detach
  is refused.
\<close>

theorem attach_detach_return_0:
  "fst (mydriver_attach dev s) = 0 \<and> fst (mydriver_detach dev s) = 0"
  by (simp add: mydriver_attach_def mydriver_detach_def)

text \<open>
  C7. For every device, Probe acquires no resource and leaves the ledger unchanged: the
  only thing \<open>mydriver_probe\<close> does to the state is to print its line. Only Attach may
  add ledger entries and only Detach may remove them: Probe and Detach add none, Probe
  and Attach remove none. (In the skeleton Attach adds none and Detach removes none
  either; the sources have no Shutdown entry point.)
\<close>

theorem probe_leaves_ledger:
  "snd (mydriver_probe c dev s) =
     s\<lparr>console := console s @ [Device_printf dev ''Probing device...\<newline>'' []]\<rparr>
   \<and> ledger (snd (mydriver_probe c dev s)) = ledger s
   \<and> ledger (snd (mydriver_attach dev s)) = ledger s
   \<and> ledger (snd (mydriver_detach dev s)) = ledger s"
  by (simp add: mydriver_probe_def mydriver_attach_def mydriver_detach_def device_printf_def)

section \<open>The module event handler\<close>

text \<open>
  C5. For every event kind other than \<open>MOD_LOAD\<close> and \<open>MOD_UNLOAD\<close>, the handler
  \<open>hello_world_load\<close> fails with \<open>EOPNOTSUPP\<close> and changes nothing: the state it
  returns is the state it was given, so the status of the module is what it was.
\<close>

theorem unsupported_event:
  "cmd \<noteq> MOD_LOAD c \<Longrightarrow> cmd \<noteq> MOD_UNLOAD c \<Longrightarrow>
     fst (hello_world_load c m cmd arg s) = EOPNOTSUPP c
     \<and> snd (hello_world_load c m cmd arg s) = s
     \<and> mstatus (snd (hello_world_load c m cmd arg s)) = mstatus s"
  by (simp add: hello_world_load_def)

theorem unsupported_event_witness:
  "2 \<noteq> MOD_LOAD freebsd \<and> 2 \<noteq> MOD_UNLOAD freebsd
   \<and> fst (hello_world_load freebsd () 2 () held_state) = 45
   \<and> snd (hello_world_load freebsd () 2 () held_state) = held_state
   \<and> mstatus (snd (hello_world_load freebsd () 2 () held_state)) = Loaded"
proof -
  have other: "2 \<noteq> MOD_LOAD freebsd" "2 \<noteq> MOD_UNLOAD freebsd"
    by (simp_all add: freebsd_def)
  from unsupported_event [OF other, of "()" "()" held_state] other show ?thesis
    by (simp add: freebsd_def held_state_def)
qed

end
